theory Spec2Isabelle
  imports Complex_Main
begin

section \<open>Numbers and vectors\<close>

text \<open>
  The viewer computes with JavaScript numbers. They are modelled as reals: rounding, NaN
  and the infinities are outside the model. The only division whose divisor can be zero
  is the one by the tangent of half the field of view in the fitting functions; no
  property below rests on its value there.

  \<open>vec3\<close> is the renderer library's Vector3 with the operations the viewer calls on it.
  \<open>normalize\<close> divides by \<open>length() || 1\<close>, so the zero vector stays the zero vector.
\<close>

datatype vec3 = Vec3 (vx: real) (vy: real) (vz: real)

definition vadd :: "vec3 \<Rightarrow> vec3 \<Rightarrow> vec3" where
  "vadd a b = Vec3 (vx a + vx b) (vy a + vy b) (vz a + vz b)"

definition vsub :: "vec3 \<Rightarrow> vec3 \<Rightarrow> vec3" where
  "vsub a b = Vec3 (vx a - vx b) (vy a - vy b) (vz a - vz b)"

definition multiplyScalar :: "vec3 \<Rightarrow> real \<Rightarrow> vec3" where
  "multiplyScalar v s = Vec3 (vx v * s) (vy v * s) (vz v * s)"

definition vlength :: "vec3 \<Rightarrow> real" where
  "vlength v = sqrt (vx v * vx v + vy v * vy v + vz v * vz v)"

definition normalize :: "vec3 \<Rightarrow> vec3" where
  "normalize v = multiplyScalar v (1 / (if vlength v = 0 then 1 else vlength v))"

section \<open>Bounding boxes\<close>

text \<open>
  The renderer library's Box3: a box whose max lies below its min in some component is
  empty, and \<open>getCenter\<close> and \<open>getSize\<close> of an empty box are the zero vector.
\<close>

record box3 =
  bmin :: vec3
  bmax :: vec3

definition isEmpty :: "box3 \<Rightarrow> bool" where
  "isEmpty b \<longleftrightarrow>
     vx (bmax b) < vx (bmin b) \<or> vy (bmax b) < vy (bmin b) \<or> vz (bmax b) < vz (bmin b)"

definition getCenter :: "box3 \<Rightarrow> vec3" where
  "getCenter b =
     (if isEmpty b then Vec3 0 0 0 else multiplyScalar (vadd (bmin b) (bmax b)) 0.5)"

definition getSize :: "box3 \<Rightarrow> vec3" where
  "getSize b = (if isEmpty b then Vec3 0 0 0 else vsub (bmax b) (bmin b))"

section \<open>Camera and displayed object\<close>

text \<open>
  The orientation of the camera is written either directly as Euler angles
  (\<open>rotation.set\<close>) or by \<open>lookAt\<close>, which derives it from the camera position at the
  time of the call and the target; \<open>LookAt eye target\<close> stands for the orientation the
  renderer library computes for that pair.
\<close>

datatype rotation = Euler real real real | LookAt vec3 vec3

record camera =
  position :: vec3
  rotation :: rotation
  zoom :: real
  fov :: real

definition lookAt :: "vec3 \<Rightarrow> camera \<Rightarrow> camera" where
  "lookAt target cam = cam\<lparr>rotation := LookAt (position cam) target\<rparr>"

record object3d =
  objPosition :: vec3
  objRotation :: vec3

section \<open>Standalone viewer (viewer3d_standalone.js, campusvt-main/viewer3d.js)\<close>

record controls =
  isRotating :: bool
  isPanning :: bool
  previousMouse :: "real \<times> real"
  rotationSpeed :: real
  panSpeed :: real
  zoomSpeed :: real
  minZoom :: real
  maxZoom :: real
  initialCameraPosition :: vec3

text \<open>\<open>initializeControls\<close> of viewer3d_standalone.js.\<close>

definition initializeControls :: controls where
  "initializeControls =
     \<lparr>isRotating = False, isPanning = False, previousMouse = (0, 0),
      rotationSpeed = 0.005, panSpeed = 0.003, zoomSpeed = 0.1,
      minZoom = 0.1, maxZoom = 50, initialCameraPosition = Vec3 0 0 5\<rparr>"

text \<open>
  The controls of campusvt-main/viewer3d.js differ in \<open>maxZoom\<close> only (its extra fields
  \<open>isZooming\<close> and \<open>initialCameraRotation\<close> are never read).
\<close>

definition initializeControlsMain :: controls where
  "initializeControlsMain = initializeControls\<lparr>maxZoom := 10\<rparr>"

text \<open>
  The module-level variables of the viewer. \<open>camera\<close> and \<open>currentModel\<close> are null until
  the scene is initialised and a model is loaded; reading a property of null throws.
\<close>

datatype error = TypeError

record viewer =
  vcamera :: "camera option"
  currentModel :: "object3d option"
  vcontrols :: controls

subsection \<open>autoFitModel\<close>

text \<open>
  The steps of \<open>autoFitModel\<close> on the bounding box \<open>Box3.setFromObject\<close> returned for the
  current model (the second one when the first was empty): the size with the all-zero
  fallback, its largest component, the distance before the margin and the final one.
\<close>

definition fitSize :: "box3 \<Rightarrow> vec3" where
  "fitSize box =
     (let size = getSize box
      in if vx size = 0 \<and> vy size = 0 \<and> vz size = 0 then Vec3 1 1 1 else size)"

definition maxDimension :: "box3 \<Rightarrow> real" where
  "maxDimension box =
     (let size = fitSize box in max (vx size) (max (vy size) (vz size)))"

definition fitDistance :: "box3 \<Rightarrow> real \<Rightarrow> real" where
  "fitDistance box cameraFov =
     (let fov = cameraFov * (pi / 180)
      in max (maxDimension box / (2 * tan (fov / 2))) 1)"

definition finalDistance :: "box3 \<Rightarrow> real \<Rightarrow> real" where
  "finalDistance box cameraFov = max (fitDistance box cameraFov * 2) 5"

definition autoFitModel :: "box3 \<Rightarrow> viewer \<Rightarrow> error + viewer" where
  "autoFitModel box v =
     (case currentModel v of
        None \<Rightarrow> Inr v
      | Some model \<Rightarrow>
          (case vcamera v of
             None \<Rightarrow> Inl TypeError
           | Some cam \<Rightarrow>
               (let center = getCenter box;
                    model' = model\<lparr>objPosition := vsub (objPosition model) center\<rparr>;
                    cam' = lookAt (Vec3 0 0 0)
                             (cam\<lparr>position := Vec3 0 0 (finalDistance box (fov cam))\<rparr>)
                in Inr (v\<lparr>currentModel := Some model',
                          vcamera := Some cam',
                          vcontrols := (vcontrols v)\<lparr>initialCameraPosition := position cam'\<rparr>\<rparr>))))"

subsection \<open>Mouse handlers and reset\<close>

text \<open>
  \<open>getWorldDirection\<close> and the columns of the camera matrix belong to the renderer library;
  the handlers take them as the record \<open>renderer\<close>.
\<close>

record renderer =
  getWorldDirection :: "camera \<Rightarrow> vec3"
  matrixColumn :: "camera \<Rightarrow> nat \<Rightarrow> vec3"

definition handleMouseDown :: "int \<Rightarrow> real \<Rightarrow> real \<Rightarrow> viewer \<Rightarrow> viewer" where
  "handleMouseDown button clientX clientY v =
     (let c = (vcontrols v)\<lparr>previousMouse := (clientX, clientY)\<rparr>
      in v\<lparr>vcontrols := (if button = 0 then c\<lparr>isPanning := True\<rparr>
                           else if button = 2 then c\<lparr>isRotating := True\<rparr>
                           else c)\<rparr>)"

definition handleMouseMove :: "real \<Rightarrow> real \<Rightarrow> viewer \<Rightarrow> error + viewer" where
  "handleMouseMove clientX clientY v =
     (let c = vcontrols v in
      if \<not> isPanning c \<and> \<not> isRotating c then Inr v
      else
        (let deltaX = clientX - fst (previousMouse c);
             deltaY = clientY - snd (previousMouse c);
             c' = c\<lparr>previousMouse := (clientX, clientY)\<rparr>
         in case (if isRotating c then currentModel v else None) of
              Some model \<Rightarrow>
                Inr (v\<lparr>currentModel := Some (model\<lparr>objRotation :=
                          Vec3 (vx (objRotation model) + deltaY * rotationSpeed c)
                               (vy (objRotation model) + deltaX * rotationSpeed c)
                               (vz (objRotation model))\<rparr>),
                        vcontrols := c'\<rparr>)
            | None \<Rightarrow>
                if isPanning c then
                  (case vcamera v of
                     None \<Rightarrow> Inl TypeError
                   | Some cam \<Rightarrow>
                       Inr (v\<lparr>vcamera := Some (cam\<lparr>position :=
                                 Vec3 (vx (position cam) - deltaX * panSpeed c)
                                      (vy (position cam) + deltaY * panSpeed c)
                                      (vz (position cam))\<rparr>),
                               vcontrols := c'\<rparr>))
                else Inr (v\<lparr>vcontrols := c'\<rparr>)))"

definition handleMouseUp :: "viewer \<Rightarrow> viewer" where
  "handleMouseUp v = v\<lparr>vcontrols := (vcontrols v)\<lparr>isPanning := False, isRotating := False\<rparr>\<rparr>"

text \<open>
  The distance clamp shared by the zoom handlers: a position shorter than \<open>lo\<close> is
  renormalised to \<open>lo\<close>, one longer than \<open>hi\<close> to \<open>hi\<close>.
\<close>

definition clampDistance :: "real \<Rightarrow> real \<Rightarrow> vec3 \<Rightarrow> vec3" where
  "clampDistance lo hi p =
     (let distance = vlength p
      in if distance < lo then multiplyScalar (normalize p) lo
         else if distance > hi then multiplyScalar (normalize p) hi
         else p)"

definition handleMouseWheel :: "renderer \<Rightarrow> real \<Rightarrow> viewer \<Rightarrow> error + viewer" where
  "handleMouseWheel R deltaY v =
     (case vcamera v of
        None \<Rightarrow> Inl TypeError
      | Some cam \<Rightarrow>
          (let c = vcontrols v;
               delta = (if deltaY > 0 then 1 else -1);
               direction = getWorldDirection R cam;
               p = vadd (position cam) (multiplyScalar direction (delta * zoomSpeed c * 2))
           in Inr (v\<lparr>vcamera := Some (cam\<lparr>position := clampDistance (minZoom c) (maxZoom c) p\<rparr>)\<rparr>)))"

definition resetViewStandalone :: "viewer \<Rightarrow> viewer" where
  "resetViewStandalone v =
     (case vcamera v of
        None \<Rightarrow> v
      | Some cam \<Rightarrow>
          (let cam1 = cam\<lparr>position := initialCameraPosition (vcontrols v),
                           rotation := Euler 0 0 0\<rparr>;
               model' = map_option (\<lambda>m. m\<lparr>objRotation := Vec3 0 0 0\<rparr>) (currentModel v)
           in v\<lparr>vcamera := Some (lookAt (Vec3 0 0 0) cam1), currentModel := model'\<rparr>))"

subsection \<open>Sequences of events\<close>

text \<open>
  A handler that throws ends the sequence: \<open>andThen\<close> passes the state on only when the
  step before it returned.
\<close>

definition andThen :: "error + 'a \<Rightarrow> ('a \<Rightarrow> error + 'b) \<Rightarrow> error + 'b" where
  "andThen r f = (case r of Inl e \<Rightarrow> Inl e | Inr x \<Rightarrow> f x)"

datatype mouse_event = MouseDown int real real | MouseMove real real | MouseUp | MouseWheel real

fun handleEvent :: "renderer \<Rightarrow> mouse_event \<Rightarrow> viewer \<Rightarrow> error + viewer" where
  "handleEvent R (MouseDown button clientX clientY) v =
     Inr (handleMouseDown button clientX clientY v)"
| "handleEvent R (MouseMove clientX clientY) v = handleMouseMove clientX clientY v"
| "handleEvent R MouseUp v = Inr (handleMouseUp v)"
| "handleEvent R (MouseWheel deltaY) v = handleMouseWheel R deltaY v"

fun handleEvents :: "renderer \<Rightarrow> mouse_event list \<Rightarrow> viewer \<Rightarrow> error + viewer" where
  "handleEvents R [] v = Inr v"
| "handleEvents R (e # es) v = andThen (handleEvent R e v) (handleEvents R es)"

text \<open>
  What the mouse handlers leave alone: the recorded reset position, and the zoom and fov
  of the camera.
\<close>

definition sameFrame :: "viewer \<Rightarrow> viewer \<Rightarrow> bool" where
  "sameFrame v v' \<longleftrightarrow>
     initialCameraPosition (vcontrols v') = initialCameraPosition (vcontrols v) \<and>
     map_option zoom (vcamera v') = map_option zoom (vcamera v) \<and>
     map_option fov (vcamera v') = map_option fov (vcamera v)"

section \<open>Optimised viewer (Scene3D)\<close>

subsection \<open>Spherical coordinates of the renderer library\<close>

text \<open>\<open>Math.atan2\<close>, and \<open>Spherical.setFromVector3\<close> with its inverse \<open>Vector3.setFromSpherical\<close>.\<close>

definition atan2 :: "real \<Rightarrow> real \<Rightarrow> real" where
  "atan2 y x =
     (if 0 < x then arctan (y / x)
      else if x < 0 then (if 0 \<le> y then arctan (y / x) + pi else arctan (y / x) - pi)
      else if 0 < y then pi / 2
      else if y < 0 then - (pi / 2)
      else 0)"

record spherical =
  radius :: real
  phi :: real
  theta :: real

definition setFromVector3 :: "vec3 \<Rightarrow> spherical" where
  "setFromVector3 v =
     (let r = vlength v
      in if r = 0 then \<lparr>radius = r, phi = 0, theta = 0\<rparr>
         else \<lparr>radius = r,
               phi = arccos (max (-1) (min 1 (vy v / r))),
               theta = atan2 (vx v) (vz v)\<rparr>)"

definition setFromSpherical :: "spherical \<Rightarrow> vec3" where
  "setFromSpherical s =
     (let sinPhiRadius = sin (phi s) * radius s
      in Vec3 (sinPhiRadius * sin (theta s)) (cos (phi s) * radius s)
              (sinPhiRadius * cos (theta s)))"

subsection \<open>State\<close>

record sensitivity =
  sensRotation :: real
  sensPan :: real
  sensZoom :: real

record mouse_controls =
  isMouseDown :: bool
  mouseButton :: int
  lastPosition :: "real \<times> real"
  sensitivity :: sensitivity
  mobileMode :: "string option"
  lastPinchDistance :: "real option"
  lastTwoFingerCenter :: "(real \<times> real) option"

record saved_view =
  savedPosition :: vec3
  savedRotation :: rotation
  savedZoom :: real

record scene3d =
  camera :: "camera option"
  mouseControls :: mouse_controls
  savedView :: "saved_view option"

text \<open>The object literal \<open>window.Scene3D\<close> before \<open>init\<close>.\<close>

definition Scene3D :: scene3d where
  "Scene3D =
     \<lparr>camera = None,
      mouseControls =
        \<lparr>isMouseDown = False, mouseButton = 0, lastPosition = (0, 0),
         sensitivity = \<lparr>sensRotation = 0.01, sensPan = 0.002, sensZoom = 0.005\<rparr>,
         mobileMode = None, lastPinchDistance = None, lastTwoFingerCenter = None\<rparr>,
      savedView = None\<rparr>"

subsection \<open>Camera movement\<close>

definition panCamera :: "renderer \<Rightarrow> real \<Rightarrow> real \<Rightarrow> real \<Rightarrow> camera \<Rightarrow> camera" where
  "panCamera R sens deltaX deltaY cam =
     (let vector = multiplyScalar (matrixColumn R cam 0) (- deltaX * sens);
          vector2 = multiplyScalar (matrixColumn R cam 1) (deltaY * sens)
      in cam\<lparr>position := vadd (position cam) (vadd vector vector2)\<rparr>)"

text \<open>
  \<open>orbitSpherical\<close> is the spherical value \<open>rotateCamera\<close> holds after the two updates and
  the clamp of \<open>phi\<close>; the camera position is recomputed from it.
\<close>

definition orbitSpherical :: "real \<Rightarrow> real \<Rightarrow> real \<Rightarrow> vec3 \<Rightarrow> spherical" where
  "orbitSpherical sens deltaX deltaY p =
     (let s = setFromVector3 p;
          s1 = s\<lparr>theta := theta s - deltaX * sens\<rparr>;
          s2 = s1\<lparr>phi := phi s1 + deltaY * sens\<rparr>
      in s2\<lparr>phi := max 0.1 (min (pi - 0.1) (phi s2))\<rparr>)"

definition rotateCamera :: "real \<Rightarrow> real \<Rightarrow> real \<Rightarrow> camera \<Rightarrow> camera" where
  "rotateCamera sens deltaX deltaY cam =
     lookAt (Vec3 0 0 0)
       (cam\<lparr>position := setFromSpherical (orbitSpherical sens deltaX deltaY (position cam))\<rparr>)"

definition zoomCamera :: "renderer \<Rightarrow> real \<Rightarrow> camera \<Rightarrow> camera" where
  "zoomCamera R delta cam =
     (let direction = multiplyScalar (getWorldDirection R cam) delta;
          p = vadd (position cam) direction;
          minDistance = 1.0;
          maxDistance = 10.0
      in cam\<lparr>position := clampDistance minDistance maxDistance p\<rparr>)"

subsection \<open>Mouse and touch handlers\<close>

text \<open>
  A handler decides which camera movements to make and makes them in order. The decision
  is kept apart as a list of \<open>camera_op\<close>, so that the movements a frame produces can be
  stated; \<open>runOps\<close> then performs them on \<open>this.camera\<close>, which is read only when there is
  a movement to make.
\<close>

datatype camera_op = Pan real real | Rotate real real | Zoom real

fun applyOp :: "renderer \<Rightarrow> sensitivity \<Rightarrow> camera_op \<Rightarrow> camera \<Rightarrow> camera" where
  "applyOp R sn (Pan deltaX deltaY) cam = panCamera R (sensPan sn) deltaX deltaY cam"
| "applyOp R sn (Rotate deltaX deltaY) cam = rotateCamera (sensRotation sn) deltaX deltaY cam"
| "applyOp R sn (Zoom delta) cam = zoomCamera R delta cam"

fun applyOps :: "renderer \<Rightarrow> sensitivity \<Rightarrow> camera_op list \<Rightarrow> camera \<Rightarrow> camera" where
  "applyOps R sn [] cam = cam"
| "applyOps R sn (op # ops) cam = applyOps R sn ops (applyOp R sn op cam)"

definition runOps :: "renderer \<Rightarrow> camera_op list \<Rightarrow> scene3d \<Rightarrow> error + scene3d" where
  "runOps R ops s =
     (if ops = [] then Inr s
      else case camera s of
             None \<Rightarrow> Inl TypeError
           | Some cam \<Rightarrow>
               Inr (s\<lparr>camera := Some (applyOps R (sensitivity (mouseControls s)) ops cam)\<rparr>))"

definition updateControls :: "(mouse_controls \<Rightarrow> mouse_controls) \<Rightarrow> scene3d \<Rightarrow> scene3d" where
  "updateControls f s = s\<lparr>mouseControls := f (mouseControls s)\<rparr>"

definition onMouseDown :: "int \<Rightarrow> real \<Rightarrow> real \<Rightarrow> scene3d \<Rightarrow> scene3d" where
  "onMouseDown button clientX clientY s =
     updateControls (\<lambda>m. m\<lparr>isMouseDown := True, mouseButton := button,
                            lastPosition := (clientX, clientY)\<rparr>) s"

definition mouseMoveOps :: "mouse_controls \<Rightarrow> real \<Rightarrow> real \<Rightarrow> camera_op list" where
  "mouseMoveOps m clientX clientY =
     (let deltaX = clientX - fst (lastPosition m);
          deltaY = clientY - snd (lastPosition m)
      in if mouseButton m = 0 then [Pan deltaX deltaY]
         else if mouseButton m = 2 then [Rotate deltaX deltaY]
         else [])"

definition onMouseMove :: "renderer \<Rightarrow> real \<Rightarrow> real \<Rightarrow> scene3d \<Rightarrow> error + scene3d" where
  "onMouseMove R clientX clientY s =
     (if \<not> isMouseDown (mouseControls s) then Inr s
      else map_sum id (updateControls (\<lambda>m. m\<lparr>lastPosition := (clientX, clientY)\<rparr>))
             (runOps R (mouseMoveOps (mouseControls s) clientX clientY) s))"

definition onMouseUp :: "scene3d \<Rightarrow> scene3d" where
  "onMouseUp s = updateControls (\<lambda>m. m\<lparr>isMouseDown := False\<rparr>) s"

definition onMouseWheel :: "renderer \<Rightarrow> real \<Rightarrow> scene3d \<Rightarrow> error + scene3d" where
  "onMouseWheel R deltaY s =
     runOps R [Zoom (deltaY * sensZoom (sensitivity (mouseControls s)))] s"

record touch =
  clientX :: real
  clientY :: real

text \<open>\<open>getMobileMode\<close> on the value of the checked radio button, if one is checked.\<close>

definition getMobileMode :: "string option \<Rightarrow> string" where
  "getMobileMode checkedRadio = (case checkedRadio of None \<Rightarrow> ''pan'' | Some v \<Rightarrow> v)"

definition pinchOf :: "touch \<Rightarrow> touch \<Rightarrow> real" where
  "pinchOf touch1 touch2 =
     sqrt ((clientX touch2 - clientX touch1) ^ 2 + (clientY touch2 - clientY touch1) ^ 2)"

definition centerOf :: "touch \<Rightarrow> touch \<Rightarrow> real \<times> real" where
  "centerOf touch1 touch2 =
     ((clientX touch1 + clientX touch2) / 2, (clientY touch1 + clientY touch2) / 2)"

definition onTouchStart :: "string option \<Rightarrow> touch list \<Rightarrow> scene3d \<Rightarrow> scene3d" where
  "onTouchStart checkedRadio touches s =
     (case touches of
        [t] \<Rightarrow>
          updateControls (\<lambda>m. m\<lparr>isMouseDown := True,
                                 lastPosition := (clientX t, clientY t),
                                 mobileMode := Some (getMobileMode checkedRadio)\<rparr>) s
      | [touch1, touch2] \<Rightarrow>
          updateControls (\<lambda>m. m\<lparr>isMouseDown := False,
                                 lastPinchDistance := Some (pinchOf touch1 touch2),
                                 lastTwoFingerCenter := Some (centerOf touch1 touch2)\<rparr>) s
      | _ \<Rightarrow> s)"

text \<open>
  One finger: the stored mode, \<open>'pan'\<close> when it is missing or the empty string, selects
  the movement.
\<close>

definition oneFingerOps :: "mouse_controls \<Rightarrow> touch \<Rightarrow> camera_op list" where
  "oneFingerOps m t =
     (let deltaX = clientX t - fst (lastPosition m);
          deltaY = clientY t - snd (lastPosition m);
          mode = (case mobileMode m of
                    None \<Rightarrow> ''pan''
                  | Some v \<Rightarrow> if v = [] then ''pan'' else v)
      in if mode = ''pan'' then [Pan deltaX deltaY]
         else if mode = ''rotate'' then [Rotate deltaX deltaY]
         else if mode = ''zoom'' then [Zoom (- deltaY * 0.01)]
         else [])"

text \<open>
  Two fingers: nothing is produced unless both stored values are truthy (a stored pinch
  distance of 0 is not). The zoom and the rotation are gated independently.
\<close>

definition twoFingerOps :: "mouse_controls \<Rightarrow> touch \<Rightarrow> touch \<Rightarrow> camera_op list" where
  "twoFingerOps m touch1 touch2 =
     (let pinchDistance = pinchOf touch1 touch2;
          currentCenter = centerOf touch1 touch2
      in case (lastPinchDistance m, lastTwoFingerCenter m) of
           (Some lastPinch, Some lastCenter) \<Rightarrow>
             if lastPinch = 0 then []
             else
               (let distanceDelta = (pinchDistance - lastPinch) * 0.01;
                    centerDeltaX = fst currentCenter - fst lastCenter;
                    centerDeltaY = snd currentCenter - snd lastCenter;
                    centerMovement = sqrt (centerDeltaX * centerDeltaX + centerDeltaY * centerDeltaY);
                    distanceChange = \<bar>pinchDistance - lastPinch\<bar>
                in (if \<bar>distanceDelta\<bar> > 0.5 then [Zoom distanceDelta] else []) @
                   (if centerMovement > 5 \<and> centerMovement > distanceChange * 0.5
                    then [Rotate centerDeltaX centerDeltaY] else []))
         | _ \<Rightarrow> [])"

definition onTouchMove :: "renderer \<Rightarrow> touch list \<Rightarrow> scene3d \<Rightarrow> error + scene3d" where
  "onTouchMove R touches s =
     (case touches of
        [t] \<Rightarrow>
          if isMouseDown (mouseControls s)
          then map_sum id (updateControls (\<lambda>m. m\<lparr>lastPosition := (clientX t, clientY t)\<rparr>))
                 (runOps R (oneFingerOps (mouseControls s) t) s)
          else Inr s
      | [touch1, touch2] \<Rightarrow>
          map_sum id
            (updateControls (\<lambda>m. m\<lparr>lastPinchDistance := Some (pinchOf touch1 touch2),
                                   lastTwoFingerCenter := Some (centerOf touch1 touch2)\<rparr>))
            (runOps R (twoFingerOps (mouseControls s) touch1 touch2) s)
      | _ \<Rightarrow> Inr s)"

text \<open>\<open>touches\<close> are the touches that remain on the screen after the one that ended.\<close>

definition onTouchEnd :: "touch list \<Rightarrow> scene3d \<Rightarrow> scene3d" where
  "onTouchEnd touches s =
     (let s1 = updateControls (\<lambda>m. m\<lparr>isMouseDown := False\<rparr>) s
      in if length touches = 0
         then updateControls (\<lambda>m. m\<lparr>lastPinchDistance := None, lastTwoFingerCenter := None\<rparr>) s1
         else s1)"

subsection \<open>Fitting the view\<close>

text \<open>
  \<open>fitModelToView\<close> on the bounding box of the model, and \<open>fitAllModelsToView\<close> on the
  union box of the loaded models (which returns at once when no model is loaded).
\<close>

definition fitCameraZ :: "real \<Rightarrow> box3 \<Rightarrow> real \<Rightarrow> real" where
  "fitCameraZ margin box cameraFov =
     (let size = getSize box;
          maxDim = max (vx size) (max (vy size) (vz size));
          fov = cameraFov * (pi / 180);
          cameraZ = \<bar>maxDim / 2 / tan (fov / 2)\<bar>;
          cameraZ1 = cameraZ * margin;
          minDistance = 1.0;
          maxDistance = 10.0
      in max minDistance (min maxDistance cameraZ1))"

definition fitBox :: "real \<Rightarrow> box3 \<Rightarrow> scene3d \<Rightarrow> error + scene3d" where
  "fitBox margin box s =
     (case camera s of
        None \<Rightarrow> Inl TypeError
      | Some cam \<Rightarrow>
          (let center = getCenter box;
               cameraZ = fitCameraZ margin box (fov cam);
               cam1 = cam\<lparr>position := Vec3 (vx center) (vy center) (vz center + cameraZ)\<rparr>
           in Inr (s\<lparr>camera := Some (lookAt center cam1)\<rparr>)))"

definition fitModelToView :: "box3 \<Rightarrow> scene3d \<Rightarrow> error + scene3d" where
  "fitModelToView box s = fitBox 1.5 box s"

definition fitAllModelsToView :: "nat \<Rightarrow> box3 \<Rightarrow> scene3d \<Rightarrow> error + scene3d" where
  "fitAllModelsToView loadedModels box s =
     (if loadedModels = 0 then Inr s else fitBox 2.0 box s)"

subsection \<open>Saved view\<close>

definition saveCurrentView :: "scene3d \<Rightarrow> error + scene3d" where
  "saveCurrentView s =
     (case camera s of
        None \<Rightarrow> Inl TypeError
      | Some cam \<Rightarrow>
          Inr (s\<lparr>savedView := Some \<lparr>savedPosition = position cam,
                                     savedRotation = rotation cam,
                                     savedZoom = zoom cam\<rparr>\<rparr>))"

definition resetView :: "scene3d \<Rightarrow> error + scene3d" where
  "resetView s =
     (case savedView s of
        None \<Rightarrow> Inr s
      | Some sv \<Rightarrow>
          (case camera s of
             None \<Rightarrow> Inl TypeError
           | Some cam \<Rightarrow>
               Inr (s\<lparr>camera := Some (cam\<lparr>position := savedPosition sv,
                                           rotation := savedRotation sv,
                                           zoom := savedZoom sv\<rparr>)\<rparr>)))"

text \<open>
  \<open>init\<close>, when the library and the canvas are there: \<open>initCamera\<close> builds the camera from
  the configuration (fov 75, position (0,0,5), aimed at the origin; the library's default
  zoom is 1), and the view is saved once the scene is set up.
\<close>

definition initCamera :: camera where
  "initCamera =
     lookAt (Vec3 0 0 0) \<lparr>position = Vec3 0 0 5, rotation = Euler 0 0 0, zoom = 1, fov = 75\<rparr>"

definition init :: "scene3d \<Rightarrow> error + scene3d" where
  "init s = saveCurrentView (s\<lparr>camera := Some initCamera\<rparr>)"

subsection \<open>Orbit sequences and a renderer for worked inputs\<close>

text \<open>A sequence of orbit deltas, as the movements \<open>applyOps\<close> performs.\<close>

definition orbitOps :: "(real \<times> real) list \<Rightarrow> camera_op list" where
  "orbitOps ds = map (\<lambda>(deltaX, deltaY). Rotate deltaX deltaY) ds"

text \<open>
  What the renderer library answers for a camera that looks down the negative z axis with
  y up, as the camera does after \<open>initCamera\<close> and after \<open>autoFitModel\<close> until it is
  rotated: the world direction (0,0,-1) and the unit axes as matrix columns.
\<close>

definition axisAligned :: renderer where
  "axisAligned =
     \<lparr>getWorldDirection = (\<lambda>cam. Vec3 0 0 (-1)),
      matrixColumn = (\<lambda>cam i. if i = 0 then Vec3 1 0 0 else if i = 1 then Vec3 0 1 0 else Vec3 0 0 1)\<rparr>"

section \<open>Properties of the standalone viewer\<close>

subsection \<open>The half-angle of a 75 degree field of view\<close>

lemma sqrt2_bounds: "1.414 < sqrt 2" "sqrt 2 < 1.415"
  by (rule real_less_rsqrt, simp add: power2_eq_square) (rule real_less_lsqrt, simp_all add: power2_eq_square)

lemma sqrt3_bounds: "1.732 < sqrt 3" "sqrt 3 < 1.733"
  by (rule real_less_rsqrt, simp add: power2_eq_square) (rule real_less_lsqrt, simp_all add: power2_eq_square)

lemma angle_75: "pi / 4 + pi / 6 = 5 * pi / 12"
  by simp

lemma sin_75: "sin (5 * pi / 12) = sqrt 2 * (sqrt 3 + 1) / 4"
proof -
  have "sin (pi / 4 + pi / 6) = sqrt 2 * (sqrt 3 + 1) / 4"
    unfolding sin_add sin_45 cos_45 sin_30 cos_30 by (simp add: algebra_simps)
  then show ?thesis unfolding angle_75 .
qed

lemma cos_75: "cos (5 * pi / 12) = sqrt 2 * (sqrt 3 - 1) / 4"
proof -
  have "cos (pi / 4 + pi / 6) = sqrt 2 * (sqrt 3 - 1) / 4"
    unfolding cos_add sin_45 cos_45 sin_30 cos_30 by (simp add: algebra_simps)
  then show ?thesis unfolding angle_75 .
qed

lemma quarter_ratio: "(a / 4) / (b / 4 + 1) = a / (b + (4::real))"
proof -
  have "b / 4 + 1 = (b + 4) / 4" by simp
  then show ?thesis by simp
qed

lemma tan_37_5: "tan (75 * (pi / 180) / 2) = sqrt 2 * (sqrt 3 + 1) / (sqrt 2 * (sqrt 3 - 1) + 4)"
proof -
  have a: "2 * (75 * (pi / 180) / 2) = 5 * pi / 12" by simp
  have "tan (75 * (pi / 180) / 2) = sin (2 * (75 * (pi / 180) / 2)) / (cos (2 * (75 * (pi / 180) / 2)) + 1)"
    by (rule tan_half)
  also have "\<dots> = sin (5 * pi / 12) / (cos (5 * pi / 12) + 1)"
    unfolding a ..
  also have "\<dots> = sqrt 2 * (sqrt 3 + 1) / (sqrt 2 * (sqrt 3 - 1) + 4)"
    unfolding sin_75 cos_75 by (rule quarter_ratio)
  finally show ?thesis .
qed

lemma num_bounds: "3.863 < sqrt 2 * (sqrt 3 + 1)" "sqrt 2 * (sqrt 3 + 1) < 3.868"
proof -
  have "1.414 * (1.732 + 1) < sqrt 2 * (sqrt 3 + 1)"
    by (rule mult_strict_mono) (use sqrt2_bounds sqrt3_bounds in auto)
  then show "3.863 < sqrt 2 * (sqrt 3 + 1)" by simp
  have "sqrt 2 * (sqrt 3 + 1) < 1.415 * (1.733 + 1)"
    by (rule mult_strict_mono) (use sqrt2_bounds sqrt3_bounds in auto)
  then show "sqrt 2 * (sqrt 3 + 1) < 3.868" by simp
qed

lemma den_bounds: "5.035 < sqrt 2 * (sqrt 3 - 1) + 4" "sqrt 2 * (sqrt 3 - 1) + 4 < 5.038"
proof -
  have "1.414 * (1.732 - 1) < sqrt 2 * (sqrt 3 - 1)"
    by (rule mult_strict_mono) (use sqrt2_bounds sqrt3_bounds in auto)
  then show "5.035 < sqrt 2 * (sqrt 3 - 1) + 4" by simp
  have "sqrt 2 * (sqrt 3 - 1) < 1.415 * (1.733 - 1)"
    by (rule mult_strict_mono) (use sqrt2_bounds sqrt3_bounds in auto)
  then show "sqrt 2 * (sqrt 3 - 1) + 4 < 5.038" by simp
qed

lemma cot_37_5_bounds:
  "1.30 < 2 / (2 * tan (75 * (pi / 180) / 2))" "2 / (2 * tan (75 * (pi / 180) / 2)) < 1.31"
proof -
  define n where "n = sqrt 2 * (sqrt 3 + 1)"
  define d where "d = sqrt 2 * (sqrt 3 - 1) + 4"
  have n: "3.863 < n" "n < 3.868" using num_bounds by (simp_all add: n_def)
  have d: "5.035 < d" "d < 5.038" using den_bounds by (simp_all add: d_def)
  have "tan (75 * (pi / 180) / 2) = n / d"
    by (simp only: tan_37_5 n_def d_def)
  then have t: "2 / (2 * tan (75 * (pi / 180) / 2)) = d / n"
    by simp
  have "1.30 * n < d" using n d by simp
  then show "1.30 < 2 / (2 * tan (75 * (pi / 180) / 2))"
    unfolding t using n by (simp add: field_simps)
  have "d < 1.31 * n" using n d by simp
  then show "2 / (2 * tan (75 * (pi / 180) / 2)) < 1.31"
    unfolding t using n by (simp add: field_simps)
qed


lemma unit_cube_size:
  assumes "bmin box = Vec3 (-1) (-1) (-1)" and "bmax box = Vec3 1 1 1"
  shows "getSize box = Vec3 2 2 2" and "getCenter box = Vec3 0 0 0"
  using assms by (simp_all add: getSize_def getCenter_def isEmpty_def vsub_def vadd_def multiplyScalar_def)

lemma vsub_zero: "vsub p (Vec3 0 0 0) = p"
  by (cases p) (simp add: vsub_def)

text \<open>
  Claim C1. For a model whose bounding box has min (-1,-1,-1) and max (1,1,1) and a camera
  with fov 75 degrees, \<open>autoFitModel\<close> (the same function in viewer3d_standalone.js and
  campusvt-main/viewer3d.js) computes maxDimension 2, the distance
  max (2 / (2 tan 37.5 degrees)) 1 before the margin, which lies between 1.30 and 1.31, and
  the final distance exactly 5; it puts the camera at (0,0,5) aimed at the origin, leaves
  the model where it is (its centre is the origin) and records (0,0,5) for the reset.
\<close>

theorem C1_unit_cube_fit:
  assumes "currentModel v = Some model" and "vcamera v = Some cam" and "fov cam = 75"
    and "bmin box = Vec3 (-1) (-1) (-1)" and "bmax box = Vec3 1 1 1"
  shows "maxDimension box = 2 \<and>
         fitDistance box (fov cam) = max (2 / (2 * tan (75 * (pi / 180) / 2))) 1 \<and>
         1.30 < fitDistance box (fov cam) \<and> fitDistance box (fov cam) < 1.31 \<and>
         finalDistance box (fov cam) = 5 \<and>
         autoFitModel box v =
           Inr (v\<lparr>currentModel := Some model,
                  vcamera := Some (cam\<lparr>position := Vec3 0 0 5,
                                         rotation := LookAt (Vec3 0 0 5) (Vec3 0 0 0)\<rparr>),
                  vcontrols := (vcontrols v)\<lparr>initialCameraPosition := Vec3 0 0 5\<rparr>\<rparr>)"
proof -
  have m: "maxDimension box = 2"
    by (simp add: maxDimension_def fitSize_def unit_cube_size [OF assms(4,5)])
  have d: "fitDistance box (fov cam) = max (2 / (2 * tan (75 * (pi / 180) / 2))) 1"
    by (simp only: fitDistance_def m assms(3) Let_def)
  have d1: "fitDistance box (fov cam) = 2 / (2 * tan (75 * (pi / 180) / 2))"
    unfolding d using cot_37_5_bounds(1) by (simp only: max_def) simp
  have lo: "1.30 < fitDistance box (fov cam)" and hi: "fitDistance box (fov cam) < 1.31"
    unfolding d1 by (rule cot_37_5_bounds)+
  have f: "finalDistance box (fov cam) = 5"
    unfolding finalDistance_def using hi by simp
  have a: "autoFitModel box v =
           Inr (v\<lparr>currentModel := Some model,
                  vcamera := Some (cam\<lparr>position := Vec3 0 0 5,
                                         rotation := LookAt (Vec3 0 0 5) (Vec3 0 0 0)\<rparr>),
                  vcontrols := (vcontrols v)\<lparr>initialCameraPosition := Vec3 0 0 5\<rparr>\<rparr>)"
    by (simp add: autoFitModel_def assms(1,2) f unit_cube_size [OF assms(4,5)] vsub_zero lookAt_def)
  from m d lo hi f a show ?thesis by blast
qed

theorem C1_unit_cube_fit_witness:
  "(let cam = \<lparr>position = Vec3 1 2 3, rotation = Euler 0 0 0, zoom = 1, fov = 75\<rparr>;
        model = \<lparr>objPosition = Vec3 0 0 0, objRotation = Vec3 0 0 0\<rparr>;
        v = \<lparr>vcamera = Some cam, currentModel = Some model, vcontrols = initializeControls\<rparr>;
        box = \<lparr>bmin = Vec3 (-1) (-1) (-1), bmax = Vec3 1 1 1\<rparr>
    in currentModel v = Some model \<and> vcamera v = Some cam \<and> fov cam = 75 \<and>
       bmin box = Vec3 (-1) (-1) (-1) \<and> bmax box = Vec3 1 1 1 \<and>
       finalDistance box (fov cam) = 5 \<and>
       autoFitModel box v =
         Inr \<lparr>vcamera = Some \<lparr>position = Vec3 0 0 5, rotation = LookAt (Vec3 0 0 5) (Vec3 0 0 0),
                               zoom = 1, fov = 75\<rparr>,
              currentModel = Some model,
              vcontrols = initializeControls\<lparr>initialCameraPosition := Vec3 0 0 5\<rparr>\<rparr>)"
  using C1_unit_cube_fit
    [of "\<lparr>vcamera = Some \<lparr>position = Vec3 1 2 3, rotation = Euler 0 0 0, zoom = 1, fov = 75\<rparr>,
          currentModel = Some \<lparr>objPosition = Vec3 0 0 0, objRotation = Vec3 0 0 0\<rparr>,
          vcontrols = initializeControls\<rparr>"
        "\<lparr>objPosition = Vec3 0 0 0, objRotation = Vec3 0 0 0\<rparr>"
        "\<lparr>position = Vec3 1 2 3, rotation = Euler 0 0 0, zoom = 1, fov = 75\<rparr>"
        "\<lparr>bmin = Vec3 (-1) (-1) (-1), bmax = Vec3 1 1 1\<rparr>"]
  by (simp add: Let_def)

subsection \<open>The degenerate box and the zoom range\<close>

lemma fitSize_zero: "getSize b = Vec3 0 0 0 \<Longrightarrow> fitSize b = Vec3 1 1 1"
  by (simp add: fitSize_def)

lemma fitSize_unit: "getSize b = Vec3 1 1 1 \<Longrightarrow> fitSize b = Vec3 1 1 1"
  by (simp add: fitSize_def)

text \<open>
  Claim C8. For every camera fov, \<open>autoFitModel\<close> on a bounding box whose size is
  (0,0,0) behaves as on a box of size (1,1,1): the zero size is replaced by (1,1,1), so
  the camera distance and the camera are the same; and when the two boxes have the same
  centre, so are the offset applied to the model and the recorded reset position, that
  is, the whole result.
\<close>

theorem C8_zero_size_as_unit:
  assumes "getSize b0 = Vec3 0 0 0" and "getSize b1 = Vec3 1 1 1"
  shows "fitSize b0 = Vec3 1 1 1 \<and>
         finalDistance b0 cameraFov = finalDistance b1 cameraFov \<and>
         map_sum id vcamera (autoFitModel b0 v) = map_sum id vcamera (autoFitModel b1 v) \<and>
         (getCenter b1 = getCenter b0 \<longrightarrow> autoFitModel b0 v = autoFitModel b1 v)"
proof -
  have s: "fitSize b0 = fitSize b1"
    by (simp only: fitSize_zero [OF assms(1)] fitSize_unit [OF assms(2)])
  then have m: "maxDimension b0 = maxDimension b1"
    by (simp only: maxDimension_def)
  then have f: "\<And>a. finalDistance b0 a = finalDistance b1 a"
    by (simp only: finalDistance_def fitDistance_def)
  have c: "map_sum id vcamera (autoFitModel b0 v) = map_sum id vcamera (autoFitModel b1 v)"
    by (simp add: autoFitModel_def f Let_def split: option.splits)
  have a: "autoFitModel b0 v = autoFitModel b1 v" if "getCenter b1 = getCenter b0"
    by (simp only: autoFitModel_def f that)
  from f c a fitSize_zero [OF assms(1)] show ?thesis by blast
qed

theorem C8_zero_size_as_unit_witness:
  "(let b0 = \<lparr>bmin = Vec3 2 3 4, bmax = Vec3 2 3 4\<rparr>;
        b1 = \<lparr>bmin = Vec3 (3/2) (5/2) (7/2), bmax = Vec3 (5/2) (7/2) (9/2)\<rparr>;
        v = \<lparr>vcamera = Some \<lparr>position = Vec3 0 0 5, rotation = Euler 0 0 0, zoom = 1, fov = 75\<rparr>,
             currentModel = Some \<lparr>objPosition = Vec3 2 3 4, objRotation = Vec3 0 0 0\<rparr>,
             vcontrols = initializeControls\<rparr>
    in getSize b0 = Vec3 0 0 0 \<and> getSize b1 = Vec3 1 1 1 \<and> getCenter b1 = getCenter b0 \<and>
       finalDistance b0 75 = finalDistance b1 75 \<and>
       autoFitModel b0 v = autoFitModel b1 v)"
  using C8_zero_size_as_unit
    [of "\<lparr>bmin = Vec3 2 3 4, bmax = Vec3 2 3 4\<rparr>"
        "\<lparr>bmin = Vec3 (3/2) (5/2) (7/2), bmax = Vec3 (5/2) (7/2) (9/2)\<rparr>" 75
        "\<lparr>vcamera = Some \<lparr>position = Vec3 0 0 5, rotation = Euler 0 0 0, zoom = 1, fov = 75\<rparr>,
             currentModel = Some \<lparr>objPosition = Vec3 2 3 4, objRotation = Vec3 0 0 0\<rparr>,
             vcontrols = initializeControls\<rparr>"]
  by (simp add: Let_def getSize_def getCenter_def isEmpty_def vsub_def vadd_def multiplyScalar_def)

text \<open>
  The distance \<open>fitModelToView\<close> and \<open>fitAllModelsToView\<close> of Scene3D choose is clamped
  into the range [1, 10] that \<open>zoomCamera\<close> enforces.
\<close>

lemma fitCameraZ_in_zoom_range:
  "tan (cameraFov * (pi / 180) / 2) \<noteq> 0 \<Longrightarrow>
   1 \<le> fitCameraZ margin box cameraFov \<and> fitCameraZ margin box cameraFov \<le> 10"
  by (simp add: fitCameraZ_def Let_def)

lemma big_box_maxDimension:
  "maxDimension \<lparr>bmin = Vec3 (-50) (-50) (-50), bmax = Vec3 50 50 50\<rparr> = 100"
  by (simp add: maxDimension_def fitSize_def getSize_def isEmpty_def vsub_def)

lemma big_box_finalDistance:
  "130 < finalDistance \<lparr>bmin = Vec3 (-50) (-50) (-50), bmax = Vec3 50 50 50\<rparr> 75"
proof -
  let ?c = "2 / (2 * tan (75 * (pi / 180) / 2))"
  have e: "100 / (2 * tan (75 * (pi / 180) / 2)) = 50 * ?c" by simp
  have "1.30 < ?c" by (rule cot_37_5_bounds)
  then have "50 * 1.30 < 50 * ?c" by (rule mult_strict_left_mono) simp
  then have "65 < 100 / (2 * tan (75 * (pi / 180) / 2))" unfolding e by simp
  then have "65 < fitDistance \<lparr>bmin = Vec3 (-50) (-50) (-50), bmax = Vec3 50 50 50\<rparr> 75"
    unfolding fitDistance_def big_box_maxDimension Let_def by simp
  then show ?thesis unfolding finalDistance_def by simp
qed

text \<open>
  Claim C6. The final distance of the auto-fit should lie within the zoom range of the same
  variant. \<open>autoFitModel\<close> has no upper clamp: for the box from (-50,-50,-50) to
  (50,50,50) and fov 75 it places the camera at a distance above 130 from the origin,
  beyond \<open>maxZoom\<close> = 50 of viewer3d_standalone.js and \<open>maxZoom\<close> = 10 of
  campusvt-main/viewer3d.js.
\<close>

theorem C6_standalone_fit_beyond_maxZoom:
  "(let box = \<lparr>bmin = Vec3 (-50) (-50) (-50), bmax = Vec3 50 50 50\<rparr>;
        cam = \<lparr>position = Vec3 0 0 5, rotation = LookAt (Vec3 0 0 5) (Vec3 0 0 0), zoom = 1, fov = 75\<rparr>;
        model = \<lparr>objPosition = Vec3 0 0 0, objRotation = Vec3 0 0 0\<rparr>;
        v = \<lparr>vcamera = Some cam, currentModel = Some model, vcontrols = initializeControls\<rparr>;
        d = finalDistance box 75
    in autoFitModel box v =
         Inr \<lparr>vcamera = Some (cam\<lparr>position := Vec3 0 0 d, rotation := LookAt (Vec3 0 0 d) (Vec3 0 0 0)\<rparr>),
              currentModel = Some model,
              vcontrols = initializeControls\<lparr>initialCameraPosition := Vec3 0 0 d\<rparr>\<rparr> \<and>
       vlength (Vec3 0 0 d) = d \<and>
       maxZoom initializeControls < d \<and> maxZoom initializeControlsMain < d)"
proof -
  let ?box = "\<lparr>bmin = Vec3 (-50) (-50) (-50), bmax = Vec3 50 50 50\<rparr>"
  have c: "getCenter ?box = Vec3 0 0 0"
    by (simp add: getCenter_def isEmpty_def vadd_def multiplyScalar_def)
  have d: "130 < finalDistance ?box 75" by (rule big_box_finalDistance)
  then have l: "vlength (Vec3 0 0 (finalDistance ?box 75)) = finalDistance ?box 75"
    by (simp add: vlength_def)
  have z: "maxZoom initializeControls = 50" "maxZoom initializeControlsMain = 10"
    by (simp_all add: initializeControls_def initializeControlsMain_def)
  show ?thesis
    unfolding Let_def using d l
    by (simp add: autoFitModel_def c vsub_zero lookAt_def z)
qed

subsection \<open>Reset after a fit\<close>

lemma handleEvent_sameFrame:
  "handleEvent R e v = Inr v' \<Longrightarrow> sameFrame v v'"
  by (cases e)
    (auto simp: sameFrame_def handleMouseDown_def handleMouseUp_def handleMouseMove_def
      handleMouseWheel_def Let_def split: option.splits if_splits)

lemma sameFrame_trans: "sameFrame a b \<Longrightarrow> sameFrame b c \<Longrightarrow> sameFrame a c"
  by (simp add: sameFrame_def)

lemma handleEvents_sameFrame:
  "handleEvents R es v = Inr v' \<Longrightarrow> sameFrame v v'"
proof (induction es arbitrary: v)
  case Nil
  then show ?case by (simp add: sameFrame_def)
next
  case (Cons e es)
  then obtain v1 where 1: "handleEvent R e v = Inr v1" and 2: "handleEvents R es v1 = Inr v'"
    by (auto simp: andThen_def split: sum.splits)
  from handleEvent_sameFrame [OF 1] Cons.IH [OF 2] show ?case by (rule sameFrame_trans)
qed

lemma camera_eqI:
  "position a = position b \<Longrightarrow> rotation a = rotation b \<Longrightarrow> zoom a = zoom b \<Longrightarrow>
   fov a = fov b \<Longrightarrow> (a :: camera) = b"
  by simp

text \<open>
  In the standalone viewer \<open>autoFitModel\<close> records the reset position itself: after a fit,
  whatever mouse events follow, \<open>resetView\<close> gives back the camera of the fit (its
  position, orientation, zoom and fov).
\<close>

lemma standalone_reset_after_fit:
  assumes "currentModel v = Some model"
    and "autoFitModel box v = Inr v1"
    and "handleEvents R es v1 = Inr v2"
  shows "vcamera (resetViewStandalone v2) = vcamera v1"
proof -
  from assms(1,2) obtain cam where c: "vcamera v = Some cam"
    by (auto simp: autoFitModel_def split: option.splits)
  let ?d = "finalDistance box (fov cam)"
  let ?cam1 = "cam\<lparr>position := Vec3 0 0 ?d, rotation := LookAt (Vec3 0 0 ?d) (Vec3 0 0 0)\<rparr>"
  have v1: "vcamera v1 = Some ?cam1" "initialCameraPosition (vcontrols v1) = Vec3 0 0 ?d"
    using assms(1,2) c by (auto simp: autoFitModel_def Let_def lookAt_def)
  have f: "sameFrame v1 v2" by (rule handleEvents_sameFrame [OF assms(3)])
  then obtain cam2 where c2: "vcamera v2 = Some cam2" "zoom cam2 = zoom cam" "fov cam2 = fov cam"
    using v1 by (auto simp: sameFrame_def)
  have i: "initialCameraPosition (vcontrols v2) = Vec3 0 0 ?d"
    using f v1 by (simp add: sameFrame_def)
  show ?thesis
    by (simp add: resetViewStandalone_def c2 i v1 lookAt_def Let_def)
qed

section \<open>Properties of Scene3D\<close>

subsection \<open>Vector lengths and the zoom clamp\<close>

lemma vlength_nonneg: "0 \<le> vlength v"
  by (simp add: vlength_def)

lemma vlength_eq_0_iff: "vlength v = 0 \<longleftrightarrow> v = Vec3 0 0 0"
proof (cases v)
  case (Vec3 x y z)
  have "x * x + y * y + z * z = 0 \<longleftrightarrow> x = 0 \<and> y = 0 \<and> z = 0"
    using sum_power2_eq_zero_iff [of x y] sum_power2_eq_zero_iff [of "sqrt (x\<^sup>2 + y\<^sup>2)" z]
    by (auto simp: power2_eq_square add_nonneg_eq_0_iff)
  then show ?thesis using Vec3 by (simp add: vlength_def)
qed

lemma vlength_multiplyScalar: "vlength (multiplyScalar v s) = \<bar>s\<bar> * vlength v"
proof -
  have "vx v * s * (vx v * s) + vy v * s * (vy v * s) + vz v * s * (vz v * s)
        = s\<^sup>2 * (vx v * vx v + vy v * vy v + vz v * vz v)"
    by (simp add: power2_eq_square algebra_simps)
  then show ?thesis
    by (simp add: vlength_def multiplyScalar_def real_sqrt_mult)
qed

lemma vlength_normalize: "v \<noteq> Vec3 0 0 0 \<Longrightarrow> vlength (normalize v) = 1"
  using vlength_nonneg [of v]
  by (simp add: normalize_def vlength_multiplyScalar vlength_eq_0_iff)

lemma normalize_zero: "normalize (Vec3 0 0 0) = Vec3 0 0 0"
  by (simp add: normalize_def multiplyScalar_def)

text \<open>
  Away from that one point the clamp does what it says, in \<open>zoomCamera\<close> and in
  \<open>handleMouseWheel\<close> alike.
\<close>

lemma clampDistance_in_range:
  assumes "0 \<le> lo" and "lo \<le> hi" and "p \<noteq> Vec3 0 0 0"
  shows "lo \<le> vlength (clampDistance lo hi p) \<and> vlength (clampDistance lo hi p) \<le> hi"
  using assms
  by (simp add: clampDistance_def Let_def vlength_multiplyScalar vlength_normalize)

lemma clampDistance_origin: "0 < lo \<Longrightarrow> clampDistance lo hi (Vec3 0 0 0) = Vec3 0 0 0"
  by (simp add: clampDistance_def Let_def vlength_def normalize_zero multiplyScalar_def)

lemma handleMouseWheel_in_range:
  assumes "vcamera v = Some cam" and "vcontrols v = initializeControls"
    and "vadd (position cam)
           (multiplyScalar (getWorldDirection R cam) ((if deltaY > 0 then 1 else -1) * 0.1 * 2))
         \<noteq> Vec3 0 0 0"
  shows "\<exists>v' cam'. handleMouseWheel R deltaY v = Inr v' \<and> vcamera v' = Some cam' \<and>
           0.1 \<le> vlength (position cam') \<and> vlength (position cam') \<le> 50"
proof -
  let ?p = "vadd (position cam)
              (multiplyScalar (getWorldDirection R cam) ((if deltaY > 0 then 1 else -1) * 0.1 * 2))"
  have "0.1 \<le> vlength (clampDistance 0.1 50 ?p) \<and> vlength (clampDistance 0.1 50 ?p) \<le> 50"
    by (rule clampDistance_in_range [OF _ _ assms(3)]) simp_all
  then show ?thesis
    using assms(1,2) by (simp add: handleMouseWheel_def initializeControls_def Let_def)
qed

lemma zoomCamera_in_range:
  assumes "vadd (position cam) (multiplyScalar (getWorldDirection R cam) delta) \<noteq> Vec3 0 0 0"
  shows "1 \<le> vlength (position (zoomCamera R delta cam)) \<and>
         vlength (position (zoomCamera R delta cam)) \<le> 10"
  using clampDistance_in_range [OF _ _ assms, of 1 10]
  by (simp add: zoomCamera_def Let_def)


lemma init_Scene3D:
  "init Scene3D =
     Inr (Scene3D\<lparr>camera := Some initCamera,
                   savedView := Some \<lparr>savedPosition = Vec3 0 0 5,
                                      savedRotation = LookAt (Vec3 0 0 5) (Vec3 0 0 0),
                                      savedZoom = 1\<rparr>\<rparr>)"
  by (simp add: init_def saveCurrentView_def initCamera_def lookAt_def)

text \<open>
  Claim C2. After a zoom the distance of the camera from the origin should lie in the zoom
  range. It does not when the move puts the camera exactly at the origin: the zero vector
  cannot be renormalised. After \<open>init\<close> the camera is at (0,0,5) and looks along
  (0,0,-1); a wheel event with deltaY = 1000 gives the zoom delta 5 and leaves the camera
  at (0,0,0), at distance 0, below the minimum distance 1 of \<open>zoomCamera\<close>.
\<close>

theorem C2_zoom_reaches_origin:
  "(let s0 = Scene3D\<lparr>camera := Some initCamera,
                       savedView := Some \<lparr>savedPosition = Vec3 0 0 5,
                                          savedRotation = LookAt (Vec3 0 0 5) (Vec3 0 0 0),
                                          savedZoom = 1\<rparr>\<rparr>
    in init Scene3D = Inr s0 \<and>
       position initCamera = Vec3 0 0 5 \<and>
       onMouseWheel axisAligned 1000 s0 =
         Inr (s0\<lparr>camera := Some (initCamera\<lparr>position := Vec3 0 0 0\<rparr>)\<rparr>) \<and>
       vlength (Vec3 0 0 0) = 0)"
proof -
  have z: "zoomCamera axisAligned 5 initCamera = initCamera\<lparr>position := Vec3 0 0 0\<rparr>"
    by (simp add: zoomCamera_def axisAligned_def initCamera_def lookAt_def Let_def
        multiplyScalar_def vadd_def clampDistance_origin)
  have w: "onMouseWheel axisAligned 1000
             (Scene3D\<lparr>camera := Some initCamera,
                       savedView := Some \<lparr>savedPosition = Vec3 0 0 5,
                                          savedRotation = LookAt (Vec3 0 0 5) (Vec3 0 0 0),
                                          savedZoom = 1\<rparr>\<rparr>) =
           Inr (Scene3D\<lparr>camera := Some (initCamera\<lparr>position := Vec3 0 0 0\<rparr>),
                       savedView := Some \<lparr>savedPosition = Vec3 0 0 5,
                                          savedRotation = LookAt (Vec3 0 0 5) (Vec3 0 0 0),
                                          savedZoom = 1\<rparr>\<rparr>)"
    by (simp add: onMouseWheel_def runOps_def Scene3D_def z)
  have p: "position initCamera = Vec3 0 0 5"
    by (simp add: initCamera_def lookAt_def)
  show ?thesis
    unfolding Let_def using w p by (simp add: init_Scene3D vlength_def)
qed



lemma sphere_sum:
  "a * r * b * (a * r * b) + c * r * (c * r) + a * r * d * (a * r * d)
   = r\<^sup>2 * (a\<^sup>2 * (b\<^sup>2 + d\<^sup>2) + c\<^sup>2)" for a b c d r :: real
  by (simp add: power2_eq_square algebra_simps)

lemma vlength_setFromSpherical: "vlength (setFromSpherical s) = \<bar>radius s\<bar>"
proof -
  have "vlength (setFromSpherical s)
        = sqrt ((radius s)\<^sup>2 * ((sin (phi s))\<^sup>2 * ((sin (theta s))\<^sup>2 + (cos (theta s))\<^sup>2)
                                  + (cos (phi s))\<^sup>2))"
    by (simp only: setFromSpherical_def vlength_def Let_def vec3.sel sphere_sum)
  then show ?thesis by simp
qed

lemma radius_setFromVector3: "radius (setFromVector3 p) = vlength p"
  by (simp add: setFromVector3_def Let_def)

lemma radius_orbitSpherical: "radius (orbitSpherical sens deltaX deltaY p) = vlength p"
  by (simp add: orbitSpherical_def Let_def radius_setFromVector3)

lemma phi_orbitSpherical:
  "0.1 \<le> phi (orbitSpherical sens deltaX deltaY p) \<and>
   phi (orbitSpherical sens deltaX deltaY p) \<le> pi - 0.1"
proof -
  have "(0.1::real) \<le> pi - 0.1" using pi_ge_two by simp
  then show ?thesis by (simp add: orbitSpherical_def Let_def)
qed

lemma position_rotateCamera:
  "position (rotateCamera sens deltaX deltaY cam) =
     setFromSpherical (orbitSpherical sens deltaX deltaY (position cam))"
  by (simp add: rotateCamera_def lookAt_def)

lemma vlength_rotateCamera:
  "vlength (position (rotateCamera sens deltaX deltaY cam)) = vlength (position cam)"
  by (simp add: position_rotateCamera vlength_setFromSpherical radius_orbitSpherical
      vlength_nonneg)

lemma phi_read_back:
  assumes "0 < radius s" and "0 \<le> phi s" and "phi s \<le> pi"
  shows "phi (setFromVector3 (setFromSpherical s)) = phi s"
proof -
  have l: "vlength (setFromSpherical s) = radius s"
    using assms(1) by (simp add: vlength_setFromSpherical)
  have y: "vy (setFromSpherical s) / radius s = cos (phi s)"
    using assms(1) by (simp add: setFromSpherical_def Let_def)
  have c: "max (-1) (min 1 (cos (phi s))) = cos (phi s)"
    using cos_ge_minus_one [of "phi s"] cos_le_one [of "phi s"] by simp
  have "phi (setFromVector3 (setFromSpherical s)) = arccos (cos (phi s))"
    using assms(1) by (simp add: setFromVector3_def Let_def l y c)
  then show ?thesis using assms(2,3) by (simp add: arccos_cos)
qed

lemma phi_rotateCamera:
  assumes "position cam \<noteq> Vec3 0 0 0"
  shows "phi (setFromVector3 (position (rotateCamera sens deltaX deltaY cam))) =
         phi (orbitSpherical sens deltaX deltaY (position cam))"
proof -
  let ?s = "orbitSpherical sens deltaX deltaY (position cam)"
  have r: "0 < radius ?s"
    using assms vlength_nonneg [of "position cam"] vlength_eq_0_iff [of "position cam"]
    by (simp add: radius_orbitSpherical)
  have p: "0 \<le> phi ?s" "phi ?s \<le> pi"
    using phi_orbitSpherical [of sens deltaX deltaY "position cam"] by simp_all
  show ?thesis
    by (simp only: position_rotateCamera phi_read_back [OF r p])
qed

lemma vlength_orbitOps:
  "vlength (position (applyOps R sn (orbitOps ds) cam)) = vlength (position cam)"
  by (induction ds arbitrary: cam) (auto simp: orbitOps_def vlength_rotateCamera)

lemma phi_orbitOps:
  assumes "ds \<noteq> []" and "position cam \<noteq> Vec3 0 0 0"
  shows "0.1 \<le> phi (setFromVector3 (position (applyOps R sn (orbitOps ds) cam))) \<and>
         phi (setFromVector3 (position (applyOps R sn (orbitOps ds) cam))) \<le> pi - 0.1"
  using assms
proof (induction ds arbitrary: cam)
  case Nil
  then show ?case by simp
next
  case (Cons d ds)
  obtain deltaX deltaY where d: "d = (deltaX, deltaY)" by (cases d)
  let ?cam = "rotateCamera (sensRotation sn) deltaX deltaY cam"
  have step: "applyOps R sn (orbitOps (d # ds)) cam = applyOps R sn (orbitOps ds) ?cam"
    by (simp add: orbitOps_def d)
  have nz: "position ?cam \<noteq> Vec3 0 0 0"
    using Cons.prems(2) vlength_rotateCamera [of "sensRotation sn" deltaX deltaY cam]
    by (simp add: vlength_eq_0_iff [symmetric])
  show ?case
  proof (cases "ds = []")
    case True
    then show ?thesis
      unfolding step
      using phi_orbitSpherical [of "sensRotation sn" deltaX deltaY "position cam"]
      by (simp add: orbitOps_def phi_rotateCamera [OF Cons.prems(2)])
  next
    case False
    then show ?thesis unfolding step by (rule Cons.IH [OF _ nz])
  qed
qed

text \<open>
  Claim C3. Every orbit step clamps the polar angle: the \<open>phi\<close> from which \<open>rotateCamera\<close>
  recomputes the camera position lies in [0.1, pi - 0.1], for every camera and every pair
  of deltas, and the step leaves the distance of the camera from the origin (the spherical
  radius) unchanged; so does every sequence of orbit steps. After a non-empty sequence of
  orbit steps from a camera that is not at the origin itself, the polar angle read back
  from the camera position is the clamped one, hence in [0.1, pi - 0.1]. (At the origin a
  position has no polar angle: the library reports 0 for the zero vector.)
\<close>

theorem C3_orbit_phi_and_radius:
  "(0.1 \<le> phi (orbitSpherical sens deltaX deltaY (position cam)) \<and>
    phi (orbitSpherical sens deltaX deltaY (position cam)) \<le> pi - 0.1) \<and>
   position (rotateCamera sens deltaX deltaY cam) =
     setFromSpherical (orbitSpherical sens deltaX deltaY (position cam)) \<and>
   vlength (position (rotateCamera sens deltaX deltaY cam)) = vlength (position cam) \<and>
   vlength (position (applyOps R sn (orbitOps ds) cam)) = vlength (position cam) \<and>
   (ds \<noteq> [] \<and> position cam \<noteq> Vec3 0 0 0 \<longrightarrow>
      0.1 \<le> phi (setFromVector3 (position (applyOps R sn (orbitOps ds) cam))) \<and>
      phi (setFromVector3 (position (applyOps R sn (orbitOps ds) cam))) \<le> pi - 0.1)"
  using phi_orbitSpherical [of sens deltaX deltaY "position cam"]
    position_rotateCamera [of sens deltaX deltaY cam]
    vlength_rotateCamera [of sens deltaX deltaY cam]
    vlength_orbitOps [of R sn ds cam] phi_orbitOps [of ds cam R sn]
  by blast

theorem C3_orbit_phi_and_radius_witness:
  "[(30, -40), (5, 500)] \<noteq> ([] :: (real \<times> real) list) \<and>
   position initCamera \<noteq> Vec3 0 0 0 \<and>
   vlength (position (applyOps axisAligned (sensitivity (mouseControls Scene3D))
                        (orbitOps [(30, -40), (5, 500)]) initCamera)) = vlength (position initCamera) \<and>
   0.1 \<le> phi (setFromVector3 (position (applyOps axisAligned (sensitivity (mouseControls Scene3D))
                                          (orbitOps [(30, -40), (5, 500)]) initCamera))) \<and>
   phi (setFromVector3 (position (applyOps axisAligned (sensitivity (mouseControls Scene3D))
                                    (orbitOps [(30, -40), (5, 500)]) initCamera))) \<le> pi - 0.1"
proof -
  have h: "[(30, -40), (5, 500)] \<noteq> ([] :: (real \<times> real) list)"
    "position initCamera \<noteq> Vec3 0 0 0"
    by (simp_all add: initCamera_def lookAt_def)
  from h C3_orbit_phi_and_radius
    [of _ _ _ initCamera axisAligned "sensitivity (mouseControls Scene3D)" "[(30, -40), (5, 500)]"]
  show ?thesis by blast
qed

subsection \<open>The two-finger gesture\<close>

lemma pinchOf_horizontal: "clientY a = clientY b \<Longrightarrow> pinchOf a b = \<bar>clientX b - clientX a\<bar>"
  by (simp add: pinchOf_def)

lemma touchStart_two:
  "mouseControls (onTouchStart checkedRadio [touch1, touch2] s) =
     (mouseControls s)\<lparr>isMouseDown := False,
                        lastPinchDistance := Some (pinchOf touch1 touch2),
                        lastTwoFingerCenter := Some (centerOf touch1 touch2)\<rparr>"
  by (simp add: onTouchStart_def updateControls_def)

text \<open>
  Claim C4, as stated, fails in its second half: with the midpoint fixed at (50,0) and the
  pinch distance going from 100 to 110 (a change of 10), the scaled delta 0.1 is below the
  noise threshold 0.5 and the frame produces no movement at all, neither zoom nor rotate.
\<close>

theorem C4_small_pinch_counterexample:
  "(let a = \<lparr>clientX = 0, clientY = 0\<rparr>; b = \<lparr>clientX = 100, clientY = 0\<rparr>;
        a' = \<lparr>clientX = -5, clientY = 0\<rparr>; b' = \<lparr>clientX = 105, clientY = 0\<rparr>;
        m = mouseControls (onTouchStart None [a, b] Scene3D)
    in lastPinchDistance m = Some 100 \<and> lastTwoFingerCenter m = Some (50, 0) \<and>
       centerOf a' b' = (50, 0) \<and> pinchOf a' b' = 110 \<and>
       twoFingerOps m a' b' = [])"
  by (simp add: Let_def touchStart_two pinchOf_horizontal centerOf_def twoFingerOps_def)

text \<open>
  Claim C4, amended. With a stored, non-zero pinch distance and a stored midpoint: a frame
  whose pinch distance is unchanged and whose midpoint moved by 20 px produces the rotate
  delta of the midpoint and no zoom; a frame whose midpoint is unchanged produces only the
  zoom delta when the pinch distance changed by more than 50 px (a scaled delta above 0.5),
  and produces nothing when it changed by 50 px or less, so nothing for a change of 10.
\<close>

theorem C4_two_finger_gating:
  assumes "lastPinchDistance m = Some d" and "d \<noteq> 0" and "lastTwoFingerCenter m = Some c"
  shows "(pinchOf t1 t2 = d \<and>
          sqrt ((fst (centerOf t1 t2) - fst c) * (fst (centerOf t1 t2) - fst c) +
                (snd (centerOf t1 t2) - snd c) * (snd (centerOf t1 t2) - snd c)) = 20 \<longrightarrow>
          twoFingerOps m t1 t2 =
            [Rotate (fst (centerOf t1 t2) - fst c) (snd (centerOf t1 t2) - snd c)]) \<and>
         (centerOf u1 u2 = c \<and> 50 < \<bar>pinchOf u1 u2 - d\<bar> \<longrightarrow>
          twoFingerOps m u1 u2 = [Zoom ((pinchOf u1 u2 - d) * 0.01)]) \<and>
         (centerOf w1 w2 = c \<and> \<bar>pinchOf w1 w2 - d\<bar> \<le> 50 \<longrightarrow>
          twoFingerOps m w1 w2 = [])"
proof (intro conjI impI)
  assume h: "pinchOf t1 t2 = d \<and>
          sqrt ((fst (centerOf t1 t2) - fst c) * (fst (centerOf t1 t2) - fst c) +
                (snd (centerOf t1 t2) - snd c) * (snd (centerOf t1 t2) - snd c)) = 20"
  then show "twoFingerOps m t1 t2 =
            [Rotate (fst (centerOf t1 t2) - fst c) (snd (centerOf t1 t2) - snd c)]"
    using assms by (simp add: twoFingerOps_def Let_def)
next
  assume h: "centerOf u1 u2 = c \<and> 50 < \<bar>pinchOf u1 u2 - d\<bar>"
  then have "0.5 < \<bar>(pinchOf u1 u2 - d) * 0.01\<bar>" by (simp add: abs_mult)
  then show "twoFingerOps m u1 u2 = [Zoom ((pinchOf u1 u2 - d) * 0.01)]"
    using assms h by (simp add: twoFingerOps_def Let_def)
next
  assume h: "centerOf w1 w2 = c \<and> \<bar>pinchOf w1 w2 - d\<bar> \<le> 50"
  then have "\<not> 0.5 < \<bar>(pinchOf w1 w2 - d) * 0.01\<bar>" by (simp add: abs_mult)
  then show "twoFingerOps m w1 w2 = []"
    using assms h by (simp add: twoFingerOps_def Let_def)
qed

lemma sqrt_400: "sqrt (400::real) = 20"
  by (rule real_sqrt_unique) simp_all

theorem C4_two_finger_gating_witness:
  "(let a = \<lparr>clientX = 0, clientY = 0\<rparr>; b = \<lparr>clientX = 100, clientY = 0\<rparr>;
        m = mouseControls (onTouchStart None [a, b] Scene3D);
        t1 = \<lparr>clientX = 12, clientY = 16\<rparr>; t2 = \<lparr>clientX = 112, clientY = 16\<rparr>;
        u1 = \<lparr>clientX = -30, clientY = 0\<rparr>; u2 = \<lparr>clientX = 130, clientY = 0\<rparr>;
        w1 = \<lparr>clientX = -5, clientY = 0\<rparr>; w2 = \<lparr>clientX = 105, clientY = 0\<rparr>
    in lastPinchDistance m = Some 100 \<and> (100::real) \<noteq> 0 \<and> lastTwoFingerCenter m = Some (50, 0) \<and>
       pinchOf t1 t2 = 100 \<and> centerOf t1 t2 = (62, 16) \<and>
       sqrt ((62 - 50) * (62 - 50) + (16 - 0) * (16 - 0)) = (20::real) \<and>
       twoFingerOps m t1 t2 = [Rotate 12 16] \<and>
       centerOf u1 u2 = (50, 0) \<and> pinchOf u1 u2 = 160 \<and>
       twoFingerOps m u1 u2 = [Zoom ((160 - 100) * 0.01)] \<and>
       centerOf w1 w2 = (50, 0) \<and> pinchOf w1 w2 = 110 \<and>
       twoFingerOps m w1 w2 = [])"
  using C4_two_finger_gating
    [of "mouseControls (onTouchStart None [\<lparr>clientX = 0, clientY = 0\<rparr>, \<lparr>clientX = 100, clientY = 0\<rparr>] Scene3D)"
        100 "(50, 0)"
        "\<lparr>clientX = 12, clientY = 16\<rparr>" "\<lparr>clientX = 112, clientY = 16\<rparr>"
        "\<lparr>clientX = -30, clientY = 0\<rparr>" "\<lparr>clientX = 130, clientY = 0\<rparr>"
        "\<lparr>clientX = -5, clientY = 0\<rparr>" "\<lparr>clientX = 105, clientY = 0\<rparr>"]
  by (simp add: Let_def touchStart_two pinchOf_horizontal centerOf_def sqrt_400)

text \<open>
  Claim C5, as stated, fails on the zoom: for touch1 (0,0) to (0,0) and touch2 (100,0) to
  (150,0) the pinch distance goes from 100 to 150, the scaled delta is exactly 0.5, which
  is not above the threshold 0.5, and the frame produces no movement: no zoom is emitted.
\<close>

theorem C5_tie_frame_counterexample:
  "(let a = \<lparr>clientX = 0, clientY = 0\<rparr>; b = \<lparr>clientX = 100, clientY = 0\<rparr>;
        b' = \<lparr>clientX = 150, clientY = 0\<rparr>;
        m = mouseControls (onTouchStart None [a, b] Scene3D)
    in pinchOf a b = 100 \<and> pinchOf a b' = 150 \<and>
       (pinchOf a b' - pinchOf a b) * 0.01 = 0.5 \<and>
       twoFingerOps m a b' = [])"
  by (simp add: Let_def touchStart_two pinchOf_horizontal centerOf_def twoFingerOps_def)

text \<open>
  Claim C5, amended. For that frame, after a two-finger touch start at (0,0) and (100,0) in
  any state: the pinch distance goes from 100 to 150 and the midpoint from (50,0) to
  (75,0); the scaled delta 0.5 is not strictly above the threshold 0.5 and the midpoint
  movement 25 is not strictly above 50 * 0.5, so both ties go to "not emitted": the frame
  produces neither a zoom nor a rotate delta, \<open>onTouchMove\<close> leaves the camera untouched
  and only stores the new pinch distance and midpoint.
\<close>

theorem C5_tie_frame:
  "(let a = \<lparr>clientX = 0, clientY = 0\<rparr>; b = \<lparr>clientX = 100, clientY = 0\<rparr>;
        b' = \<lparr>clientX = 150, clientY = 0\<rparr>;
        s1 = onTouchStart checkedRadio [a, b] s
    in lastPinchDistance (mouseControls s1) = Some 100 \<and>
       lastTwoFingerCenter (mouseControls s1) = Some (50, 0) \<and>
       pinchOf a b' = 150 \<and> centerOf a b' = (75, 0) \<and>
       \<not> \<bar>(150 - 100) * 0.01\<bar> > (0.5::real) \<and>
       \<not> sqrt ((75 - 50) * (75 - 50) + (0 - 0) * (0 - 0)) > \<bar>150 - 100\<bar> * (0.5::real) \<and>
       twoFingerOps (mouseControls s1) a b' = [] \<and>
       onTouchMove R [a, b'] s1 =
         Inr (s1\<lparr>mouseControls := (mouseControls s1)\<lparr>lastPinchDistance := Some 150,
                                                       lastTwoFingerCenter := Some (75, 0)\<rparr>\<rparr>))"
proof -
  have q: "sqrt (625::real) = 25" by (rule real_sqrt_unique) simp_all
  show ?thesis
    by (simp add: Let_def touchStart_two pinchOf_horizontal centerOf_def twoFingerOps_def
        onTouchMove_def runOps_def updateControls_def q)
qed

text \<open>
  Claim C9, as stated, fails when one touch remains: after a two-finger touch start at
  (0,0) and (100,0), a touch end that leaves one finger on the screen keeps the stored
  pinch distance 100 and midpoint (50,0).
\<close>

theorem C9_one_touch_left_counterexample:
  "(let a = \<lparr>clientX = 0, clientY = 0\<rparr>; b = \<lparr>clientX = 100, clientY = 0\<rparr>;
        s = onTouchEnd [a] (onTouchStart None [a, b] Scene3D)
    in lastPinchDistance (mouseControls s) = Some 100 \<and>
       lastTwoFingerCenter (mouseControls s) = Some (50, 0))"
  by (simp add: Let_def onTouchEnd_def updateControls_def touchStart_two pinchOf_horizontal
      centerOf_def)

text \<open>
  Claim C9, amended. A touch end that leaves no touch on the screen discards the stored
  pinch distance and midpoint; one that leaves a touch only clears \<open>isMouseDown\<close> and keeps
  them; and a two-finger touch start overwrites both with the distance and midpoint of
  its own touches, whatever was stored before.
\<close>

theorem C9_touch_end_baseline:
  "lastPinchDistance (mouseControls (onTouchEnd [] s)) = None \<and>
   lastTwoFingerCenter (mouseControls (onTouchEnd [] s)) = None \<and>
   mouseControls (onTouchEnd (t # ts) s) = (mouseControls s)\<lparr>isMouseDown := False\<rparr> \<and>
   lastPinchDistance (mouseControls (onTouchStart checkedRadio [touch1, touch2] s')) =
     Some (pinchOf touch1 touch2) \<and>
   lastTwoFingerCenter (mouseControls (onTouchStart checkedRadio [touch1, touch2] s')) =
     Some (centerOf touch1 touch2)"
  by (simp add: onTouchEnd_def updateControls_def touchStart_two)

text \<open>
  Claim C10. When no view has been saved, \<open>resetView\<close> returns without throwing and leaves
  the whole state, with the camera position, rotation and zoom, as it was.
\<close>

theorem C10_reset_without_saved_view:
  "savedView s = None \<Longrightarrow> resetView s = Inr s"
  by (simp add: resetView_def)

theorem C10_reset_without_saved_view_witness:
  "savedView Scene3D = None \<and> resetView Scene3D = Inr Scene3D"
proof -
  have h: "savedView Scene3D = None" by (simp add: Scene3D_def)
  from h C10_reset_without_saved_view [OF h] show ?thesis by simp
qed

subsection \<open>The saved view\<close>

lemma fov_applyOp: "fov (applyOp R sn op cam) = fov cam"
  by (cases op) (simp_all add: panCamera_def rotateCamera_def zoomCamera_def lookAt_def Let_def)

lemma fov_applyOps: "fov (applyOps R sn ops cam) = fov cam"
  by (induction ops arbitrary: cam) (simp_all add: fov_applyOp)

lemma resetView_restores:
  "savedView s = Some sv \<Longrightarrow> camera s = Some cam \<Longrightarrow>
   resetView s = Inr (s\<lparr>camera := Some (cam\<lparr>position := savedPosition sv,
                                               rotation := savedRotation sv,
                                               zoom := savedZoom sv\<rparr>)\<rparr>)"
  by (simp add: resetView_def)

text \<open>
  Claim C7. \<open>resetView\<close> should bring the camera back to the view of the most recent
  auto-fit. In Scene3D the view is saved once, in \<open>init\<close>, and \<open>fitModelToView\<close> does not
  save it again: after \<open>init\<close>, a fit to any box and any camera movements, \<open>resetView\<close>
  gives back the state \<open>init\<close> returned. For the box from (2,-1,-1) to (4,1,1) the fit
  puts the camera at (3, 0, z) aimed at (3,0,0), and the reset puts it at (0,0,5).
\<close>

theorem C7_reset_returns_to_init_view:
  "andThen (andThen (andThen (init Scene3D) (fitModelToView box)) (runOps R ops)) resetView
     = init Scene3D \<and>
   (let box0 = \<lparr>bmin = Vec3 2 (-1) (-1), bmax = Vec3 4 1 1\<rparr>;
        z = fitCameraZ 1.5 box0 75;
        s0 = Scene3D\<lparr>camera := Some initCamera,
                      savedView := Some \<lparr>savedPosition = Vec3 0 0 5,
                                         savedRotation = LookAt (Vec3 0 0 5) (Vec3 0 0 0),
                                         savedZoom = 1\<rparr>\<rparr>;
        fitted = initCamera\<lparr>position := Vec3 3 0 z, rotation := LookAt (Vec3 3 0 z) (Vec3 3 0 0)\<rparr>
    in init Scene3D = Inr s0 \<and>
       fitModelToView box0 s0 = Inr (s0\<lparr>camera := Some fitted\<rparr>) \<and>
       resetView (s0\<lparr>camera := Some fitted\<rparr>) = Inr s0 \<and>
       position initCamera = Vec3 0 0 5 \<and>
       position fitted \<noteq> position initCamera)"
proof -
  let ?sv = "\<lparr>savedPosition = Vec3 0 0 5, savedRotation = LookAt (Vec3 0 0 5) (Vec3 0 0 0),
              savedZoom = 1\<rparr>"
  let ?s0 = "Scene3D\<lparr>camera := Some initCamera, savedView := Some ?sv\<rparr>"
  have ic: "initCamera = \<lparr>position = Vec3 0 0 5, rotation = LookAt (Vec3 0 0 5) (Vec3 0 0 0),
                           zoom = 1, fov = 75\<rparr>"
    by (simp add: initCamera_def lookAt_def)
  have rst: "resetView (?s0\<lparr>camera := Some cam\<rparr>) = Inr ?s0" if "fov cam = 75" for cam
    using that by (simp add: resetView_def ic)
  have fit: "fitModelToView b ?s0 =
      Inr (?s0\<lparr>camera := Some (initCamera\<lparr>
             position := Vec3 (vx (getCenter b)) (vy (getCenter b))
                           (vz (getCenter b) + fitCameraZ 1.5 b 75),
             rotation := LookAt (Vec3 (vx (getCenter b)) (vy (getCenter b))
                                   (vz (getCenter b) + fitCameraZ 1.5 b 75)) (getCenter b)\<rparr>)\<rparr>)"
    for b
    by (simp add: fitModelToView_def fitBox_def Let_def lookAt_def ic)
  have ops: "runOps R ops (?s0\<lparr>camera := Some cam\<rparr>) =
      Inr (?s0\<lparr>camera := Some (applyOps R (sensitivity (mouseControls Scene3D)) ops cam)\<rparr>)"
    for cam
    by (simp add: runOps_def)
  have general: "andThen (andThen (andThen (init Scene3D) (fitModelToView box)) (runOps R ops))
                   resetView = init Scene3D"
  proof -
    let ?c2 = "applyOps R (sensitivity (mouseControls Scene3D)) ops
                 (initCamera\<lparr>
                    position := Vec3 (vx (getCenter box)) (vy (getCenter box))
                                  (vz (getCenter box) + fitCameraZ 1.5 box 75),
                    rotation := LookAt (Vec3 (vx (getCenter box)) (vy (getCenter box))
                                          (vz (getCenter box) + fitCameraZ 1.5 box 75))
                                  (getCenter box)\<rparr>)"
    have "fov ?c2 = 75" by (simp add: fov_applyOps ic)
    from rst [OF this] show ?thesis
      by (simp only: init_Scene3D andThen_def sum.case fit ops)
  qed
  have c0: "getCenter \<lparr>bmin = Vec3 2 (-1) (-1), bmax = Vec3 4 1 1\<rparr> = Vec3 3 0 0"
    by (simp add: getCenter_def isEmpty_def vadd_def multiplyScalar_def)
  show ?thesis
    unfolding Let_def
  proof (intro conjI)
    show "andThen (andThen (andThen (init Scene3D) (fitModelToView box)) (runOps R ops))
            resetView = init Scene3D"
      by (rule general)
  qed (simp_all add: init_Scene3D fitModelToView_def fitBox_def Let_def lookAt_def c0 ic
        resetView_def)
qed

end
